theory Spec2Isabelle
  imports Main "HOL-Library.Sublist"
begin

section \<open>Data model of the chat client (main.go)\<close>

text \<open>
  Go strings are byte sequences; \<open>string\<close> (a list of 8-bit characters) models them, so that
  \<open>len\<close> is \<open>length\<close> and the slice \<open>s[:len(s)-1]\<close> is \<open>butlast\<close>. A Go \<open>error\<close> is
  modelled by the text of its \<open>Error()\<close> method, and a nil error or nil pointer by \<open>None\<close>.
\<close>

record chatMessage =
  role :: string
  content :: string

text \<open>
  The six lipgloss styles of the source. What \<open>Render\<close> does to a text is the library's
  business: every function that renders takes the rendering function as its first argument.
\<close>

datatype style = titleStyle | userStyle | assistantStyle | inputStyle | errorStyle | helpStyle

type_synonym renderer = "style \<Rightarrow> string \<Rightarrow> string"

text \<open>The provider's message parameters built by \<open>streamResponse\<close>.\<close>

datatype param = UserMessage string | AssistantMessage string

text \<open>
  The struct \<open>model\<close>. The client pointer holds the API key the client was built from;
  \<open>streamChan\<close> is a reference to a channel (its address in the store), \<open>None\<close> for nil.
\<close>

record model =
  client :: "string option"
  modelName :: string
  messages :: "chatMessage list"
  input :: string
  viewport :: string
  loading :: bool
  streaming :: bool
  partialResp :: string
  err :: "string option"
  streamChan :: "nat option"

text \<open>
  The messages the \<open>Update\<close> method switches on. A key event is represented by the value of
  its \<open>String()\<close> method, which is all that \<open>Update\<close> reads of it; \<open>otherMsg\<close> stands for
  every message type without a case in the switch.
\<close>

datatype msg =
    KeyMsg string
  | msgResponse string "string option"
  | streamStartMsg
  | streamStarted "string option" "param list" string
  | streamUpdateMsg string
  | streamCompleteMsg string "string option"
  | msgStreamChunk string bool "string option"
  | otherMsg

text \<open>
  Commands: \<open>tea.Quit\<close>, \<open>tea.Batch\<close>, a closure that returns a fixed message, and the
  polling closure built by \<open>listenForStreamUpdates\<close> for a channel reference. The nil command
  is \<open>None\<close> of \<open>cmd option\<close>.
\<close>

datatype cmd =
    Quit
  | Batch "cmd list"
  | ReturnMsg msg
  | Listen nat

text \<open>
  The two side effects of \<open>Update\<close> in its \<open>streamStarted\<close> case: \<open>make(chan string, n)\<close> at a
  fresh reference, and the \<open>go\<close> statement that starts the producer on that channel.
\<close>

datatype effect =
    MakeChan nat nat
  | GoStartStreaming nat "string option" "param list" string

definition nl :: string where
  "nl = [CHR 0x0A]"

definition cursor :: string where
  "cursor = [CHR 0xE2, CHR 0x96, CHR 0x88]"

definition zeroModel :: model where
  "zeroModel = \<lparr> client = None, modelName = [], messages = [], input = [], viewport = [],
     loading = False, streaming = False, partialResp = [], err = None, streamChan = None \<rparr>"

text \<open>
  \<open>initialModel\<close> reads the process environment (after \<open>godotenv.Load\<close>); the environment is
  the argument, and an unset variable reads as the empty string, as \<open>os.Getenv\<close> returns it.
\<close>

definition initialModel :: "(string \<Rightarrow> string) \<Rightarrow> model" where
  "initialModel env =
     (let apiKey = env ''OPENAI_API_KEY'' in
      if apiKey = [] then
        zeroModel \<lparr> err := Some ''OPENAI_API_KEY not found in environment or .env file'' \<rparr>
      else
        (let name0 = env ''OPENAI_MODEL'';
             name = (if name0 = [] then ''gpt-4o'' else name0)
         in zeroModel \<lparr> client := Some apiKey, modelName := name, messages := [],
                         input := [], viewport := [], loading := False \<rparr>))"

definition streamResponse :: "model \<Rightarrow> cmd" where
  "streamResponse m =
     ReturnMsg (streamStarted (client m)
       (map (\<lambda>x. if role x = ''user'' then UserMessage (content x)
                  else AssistantMessage (content x)) (messages m))
       (modelName m))"

definition sendMessage :: "model \<Rightarrow> cmd" where
  "sendMessage m = Batch [ReturnMsg streamStartMsg, streamResponse m]"

definition streamChanCap :: nat where
  "streamChanCap = 100"

text \<open>
  \<open>Update\<close>, case by case as in the source. The second argument is the reference that
  \<open>make\<close> returns when the \<open>streamStarted\<close> case allocates a channel. The result is the new
  model, the command returned, and the effects performed.
\<close>

fun Update :: "renderer \<Rightarrow> nat \<Rightarrow> model \<Rightarrow> msg \<Rightarrow> model \<times> cmd option \<times> effect list" where
  "Update R fresh m (KeyMsg k) =
     (if k = ''ctrl+c'' \<or> k = ''q'' then (m, Some Quit, [])
      else if k = ''enter'' then
        (if input m \<noteq> [] \<and> \<not> loading m then
           (let m1 = m \<lparr> messages := messages m @ [\<lparr> role = ''user'', content = input m \<rparr>],
                         viewport := viewport m @ R userStyle ''You: '' @ input m @ nl @ nl \<rparr>;
                m2 = m1 \<lparr> input := [], loading := True \<rparr>
            in (m2, Some (sendMessage m2), []))
         else (m, None, []))
      else if k = ''backspace'' then
        ((if length (input m) > 0 then m \<lparr> input := butlast (input m) \<rparr> else m), None, [])
      else
        ((if \<not> loading m then m \<lparr> input := input m @ k \<rparr> else m), None, []))"
| "Update R fresh m (msgResponse c e) =
     (let m1 = m \<lparr> loading := False \<rparr> in
      case e of
        Some d \<Rightarrow> (m1 \<lparr> err := Some d \<rparr>, None, [])
      | None \<Rightarrow>
          (m1 \<lparr> messages := messages m1 @ [\<lparr> role = ''assistant'', content = c \<rparr>],
                viewport := viewport m1 @ R assistantStyle ''LLM: '' @ c @ nl @ nl \<rparr>, None, []))"
| "Update R fresh m streamStartMsg =
     (m \<lparr> streaming := True, partialResp := [] \<rparr>, None, [])"
| "Update R fresh m (streamStarted cl ps mn) =
     (m \<lparr> streamChan := Some fresh \<rparr>, Some (Listen fresh),
      [MakeChan fresh streamChanCap, GoStartStreaming fresh cl ps mn])"
| "Update R fresh m (streamUpdateMsg c) =
     (let m1 = (if c \<noteq> [] then m \<lparr> partialResp := c \<rparr> else m) in
      case streamChan m1 of
        Some ch \<Rightarrow> (m1, Some (Listen ch), [])
      | None \<Rightarrow> (m1, None, []))"
| "Update R fresh m (streamCompleteMsg c e) =
     (let m1 = m \<lparr> loading := False, streaming := False, streamChan := None \<rparr>;
          m2 = (case e of
                  Some d \<Rightarrow> m1 \<lparr> err := Some d \<rparr>
                | None \<Rightarrow>
                    m1 \<lparr> messages := messages m1 @ [\<lparr> role = ''assistant'', content = c \<rparr>],
                         viewport := viewport m1 @ R assistantStyle ''LLM: '' @ c @ nl @ nl \<rparr>)
      in (m2 \<lparr> partialResp := [] \<rparr>, None, []))"
| "Update R fresh m (msgStreamChunk c d e) =
     (case e of
        Some x \<Rightarrow>
          (m \<lparr> err := Some x, loading := False, streaming := False, partialResp := [] \<rparr>, None, [])
      | None \<Rightarrow>
          if d then
            (m \<lparr> loading := False, streaming := False,
                 messages := messages m @ [\<lparr> role = ''assistant'', content = c \<rparr>],
                 viewport := viewport m @ R assistantStyle ''LLM: '' @ c @ nl @ nl,
                 partialResp := [] \<rparr>, None, [])
          else (m \<lparr> partialResp := c, streaming := True \<rparr>, None, []))"
| "Update R fresh m otherMsg = (m, None, [])"

text \<open>\<open>View\<close>: the error view when the error field is set, the chat view otherwise.\<close>

definition View :: "renderer \<Rightarrow> model \<Rightarrow> string" where
  "View R m =
     (case err m of
        Some e \<Rightarrow> R errorStyle (''Error: '' @ e) @ nl @ nl @ R helpStyle ''Press q to quit.''
      | None \<Rightarrow>
          R titleStyle ''LLM TUI Chat'' @ nl @ R titleStyle ''================'' @ nl @ nl
          @ viewport m
          @ (if loading m then
               (if streaming m \<and> partialResp m \<noteq> [] then
                  R assistantStyle ''LLM: '' @ partialResp m @ R assistantStyle cursor
                else R assistantStyle ''LLM is typing...'') @ nl @ nl
             else [])
          @ R inputStyle ''You: '' @ input m
          @ (if \<not> loading m then R inputStyle cursor else [])
          @ nl @ nl
          @ R helpStyle ''Press Enter to send, Ctrl+C or q to quit'')"

text \<open>The model after a list of deliveries, each with the reference available to \<open>make\<close>.\<close>

fun deliver :: "renderer \<Rightarrow> model \<Rightarrow> (nat \<times> msg) list \<Rightarrow> model" where
  "deliver R m [] = m"
| "deliver R m ((fresh, x) # xs) = deliver R (fst (Update R fresh m x)) xs"


section \<open>The conduit: a buffered Go channel of strings\<close>

text \<open>
  A buffered channel is its queue of pending values, its capacity and whether it has been
  closed. Sending on a closed channel and closing a closed channel are run-time panics in Go;
  they are results of the model.
\<close>

record chan =
  queue :: "string list"
  capacity :: nat
  closed :: bool

datatype panic = SendOnClosedChannel | CloseOfClosedChannel

definition make_chan :: "nat \<Rightarrow> chan" where
  "make_chan n = \<lparr> queue = [], capacity = n, closed = False \<rparr>"

text \<open>
  The statement \<open>select { case ch <- v: default: }\<close> on a buffered channel: the value is
  enqueued when the buffer has room, and otherwise the default branch runs and nothing
  happens. The boolean tells which branch ran.
\<close>

definition try_send :: "chan \<Rightarrow> string \<Rightarrow> panic + (bool \<times> chan)" where
  "try_send ch v =
     (if closed ch then Inl SendOnClosedChannel
      else if length (queue ch) < capacity ch then Inr (True, ch \<lparr> queue := queue ch @ [v] \<rparr>)
      else Inr (False, ch))"

definition close_chan :: "chan \<Rightarrow> panic + chan" where
  "close_chan ch = (if closed ch then Inl CloseOfClosedChannel else Inr (ch \<lparr> closed := True \<rparr>))"

section \<open>The consumer's poll (listenForStreamUpdates)\<close>

definition HasPrefix :: "string \<Rightarrow> string \<Rightarrow> bool" where
  "HasPrefix s p = prefix p s"

text \<open>The decoding of a received string into a message.\<close>

definition decode :: "string \<Rightarrow> msg" where
  "decode c =
     (if HasPrefix c ''DONE:'' then streamCompleteMsg (drop 5 c) None
      else if HasPrefix c ''ERROR:'' then streamCompleteMsg [] (Some (drop 6 c))
      else streamUpdateMsg c)"

text \<open>
  The closure returned by \<open>listenForStreamUpdates\<close>, at the moment its \<open>select\<close> resolves:
  a pending value is received and decoded; a closed and drained channel gives the empty
  completion; an open and empty channel lets the 50 ms timer fire, which gives the empty
  update. The channel is receive-only for this function: it only ever dequeues.
\<close>

definition listenForStreamUpdates :: "chan \<Rightarrow> msg \<times> chan" where
  "listenForStreamUpdates ch =
     (case queue ch of
        c # rest \<Rightarrow> (decode c, ch \<lparr> queue := rest \<rparr>)
      | [] \<Rightarrow> if closed ch then (streamCompleteMsg [] None, ch) else (streamUpdateMsg [], ch))"

section \<open>The producer (startStreamingInBackground)\<close>

text \<open>
  What the provider's stream yields to one request: the chunks for which \<open>stream.Next()\<close>
  is true, each with the delta texts of its choices, and then the value of \<open>stream.Err()\<close>.
\<close>

type_synonym chunk = "string list"

record stream =
  chunks :: "chunk list"
  streamErr :: "string option"

text \<open>The condition of the loop body, and the text it appends.\<close>

definition has_text :: "chunk \<Rightarrow> bool" where
  "has_text c = (case c of [] \<Rightarrow> False | d # _ \<Rightarrow> d \<noteq> [])"

definition delta :: "chunk \<Rightarrow> string" where
  "delta c = (case c of [] \<Rightarrow> [] | d # _ \<Rightarrow> d)"

text \<open>The string of the final send: what the two branches after the loop build.\<close>

definition final_event :: "string option \<Rightarrow> string \<Rightarrow> string" where
  "final_event e full = (case e of None \<Rightarrow> ''DONE:'' @ full | Some d \<Rightarrow> ''ERROR:'' @ d)"

text \<open>
  The loop over the stream, run without interruption: the accumulated response and the
  channel after every chunk has been handled.
\<close>

fun stream_loop :: "chunk list \<Rightarrow> string \<Rightarrow> chan \<Rightarrow> panic + (string \<times> chan)" where
  "stream_loop [] full ch = Inr (full, ch)"
| "stream_loop (c # cs) full ch =
     (if has_text c then
        (case try_send ch (full @ delta c) of
           Inl p \<Rightarrow> Inl p
         | Inr (_, ch') \<Rightarrow> stream_loop cs (full @ delta c) ch')
      else stream_loop cs full ch)"

text \<open>The whole function: the loop, the final send, and the deferred close.\<close>

definition startStreamingInBackground :: "chan \<Rightarrow> stream \<Rightarrow> panic + chan" where
  "startStreamingInBackground ch s =
     (case stream_loop (chunks s) [] ch of
        Inl p \<Rightarrow> Inl p
      | Inr (full, ch1) \<Rightarrow>
          (case try_send ch1 (final_event (streamErr s) full) of
             Inl p \<Rightarrow> Inl p
           | Inr (_, ch2) \<Rightarrow> close_chan ch2))"

section \<open>Producer and consumer interleaved\<close>

text \<open>
  The producer runs in its own goroutine, so the consumer's polls fall between its channel
  operations. The producer is cut into its atomic steps: one loop iteration, the final send,
  the deferred close. A log records every channel operation with the party that performed it.
\<close>

datatype producer =
    Looping "chunk list" "string option" string
  | Closing
  | Exited

datatype op =
    PushPartial string bool
  | PushTerminal string bool
  | ProducerClose
  | ConsumerRecv msg

record relay =
  prod :: producer
  conduit :: chan
  oplog :: "op list"

datatype actor = Producer | Consumer

definition relay_init :: "stream \<Rightarrow> relay" where
  "relay_init s = \<lparr> prod = Looping (chunks s) (streamErr s) [], conduit = make_chan streamChanCap,
                    oplog = [] \<rparr>"

definition producer_step :: "relay \<Rightarrow> panic + relay" where
  "producer_step r =
     (case prod r of
        Looping (c # cs) e full \<Rightarrow>
          (if has_text c then
             (case try_send (conduit r) (full @ delta c) of
                Inl p \<Rightarrow> Inl p
              | Inr (b, ch') \<Rightarrow>
                  Inr (r \<lparr> prod := Looping cs e (full @ delta c), conduit := ch',
                           oplog := oplog r @ [PushPartial (full @ delta c) b] \<rparr>))
           else Inr (r \<lparr> prod := Looping cs e full \<rparr>))
      | Looping [] e full \<Rightarrow>
          (case try_send (conduit r) (final_event e full) of
             Inl p \<Rightarrow> Inl p
           | Inr (b, ch') \<Rightarrow>
               Inr (r \<lparr> prod := Closing, conduit := ch',
                        oplog := oplog r @ [PushTerminal (final_event e full) b] \<rparr>))
      | Closing \<Rightarrow>
          (case close_chan (conduit r) of
             Inl p \<Rightarrow> Inl p
           | Inr ch' \<Rightarrow> Inr (r \<lparr> prod := Exited, conduit := ch', oplog := oplog r @ [ProducerClose] \<rparr>))
      | Exited \<Rightarrow> Inr r)"

definition consumer_step :: "relay \<Rightarrow> relay" where
  "consumer_step r =
     (let (x, ch') = listenForStreamUpdates (conduit r)
      in r \<lparr> conduit := ch', oplog := oplog r @ [ConsumerRecv x] \<rparr>)"

fun relay_step :: "actor \<Rightarrow> relay \<Rightarrow> panic + relay" where
  "relay_step Producer r = producer_step r"
| "relay_step Consumer r = Inr (consumer_step r)"

fun relay_run :: "actor list \<Rightarrow> relay \<Rightarrow> panic + relay" where
  "relay_run [] r = Inr r"
| "relay_run (a # as) r = (case relay_step a r of Inl p \<Rightarrow> Inl p | Inr r' \<Rightarrow> relay_run as r')"
















section \<open>The non-streaming request\<close>

text \<open>
  The repository's second program file is the client without streaming: its \<open>sendMessage\<close>
  answers a request with one \<open>msgResponse\<close>, which \<open>Update\<close> handles as above. The
  result of the provider's call is an error or the message contents of the choices returned.
\<close>

definition sendMessage_nonstreaming :: "string + string list \<Rightarrow> msg" where
  "sendMessage_nonstreaming resp =
     (case resp of
        Inl e \<Rightarrow> msgResponse [] (Some e)
      | Inr choices \<Rightarrow>
          (case choices of
             [] \<Rightarrow> msgResponse [] (Some ''no response from OpenAI'')
           | c # _ \<Rightarrow> msgResponse c None))"

section \<open>Keys, session invariant, order of delivery\<close>


definition literal_key :: "string \<Rightarrow> bool" where
  "literal_key k = (k \<noteq> ''ctrl+c'' \<and> k \<noteq> ''q'' \<and> k \<noteq> ''enter'' \<and> k \<noteq> ''backspace'')"





section \<open>Concrete environments and renderer for the scenarios\<close>

definition plainRender :: renderer where
  "plainRender s x = x"


definition keyEnv :: "string \<Rightarrow> string" where
  "keyEnv v = (if v = ''OPENAI_API_KEY'' then ''sk-test'' else [])"

text \<open>The session of the scenarios after the user has typed and submitted \<open>hi\<close>.\<close>

definition submitted_hi :: model where
  "submitted_hi =
     deliver plainRender (initialModel keyEnv)
       [(0, KeyMsg ''h''), (0, KeyMsg ''i''), (0, KeyMsg ''enter''), (0, streamStartMsg),
        (0, streamStarted (Some ''sk-test'') [UserMessage ''hi''] ''gpt-4o'')]"

text \<open>A provider stream of 101 one-letter chunks, and the stream and schedule of a short
  answer with the consumer polling in between.\<close>

definition burst :: stream where
  "burst = \<lparr> chunks = replicate 101 [''a''], streamErr = None \<rparr>"



text \<open>A stream whose text starts like a terminal event, cut into two chunks.\<close>

definition done_like :: relay where
  "done_like = relay_init \<lparr> chunks = [ [''DONE: all''], ['' good''] ], streamErr = None \<rparr>"

definition error_like :: relay where
  "error_like = relay_init \<lparr> chunks = [ [''ERROR: none''], ['' found''] ], streamErr = None \<rparr>"

text \<open>A relay whose conduit of capacity two is full.\<close>

definition full_relay :: relay where
  "full_relay = \<lparr> prod = Looping [ [''c''] ] None ''ab'',
                   conduit = \<lparr> queue = [''a'', ''ab''], capacity = 2, closed = False \<rparr>,
                   oplog = [PushPartial ''a'' True, PushPartial ''ab'' True] \<rparr>"



section \<open>Properties of the UI loop\<close>

lemma deliver_append: "deliver R m (xs @ ys) = deliver R (deliver R m xs) ys"
  by (induction xs arbitrary: m) auto

lemma update_msg_keeps:
  "messages (fst (Update R f m (streamUpdateMsg c))) = messages m"
  "loading (fst (Update R f m (streamUpdateMsg c))) = loading m"
  "streaming (fst (Update R f m (streamUpdateMsg c))) = streaming m"
  "partialResp (fst (Update R f m (streamUpdateMsg c))) = (if c = [] then partialResp m else c)"
  by (auto simp: Let_def split: option.splits)

lemma deliver_updates_messages:
  "messages (deliver R m (map (\<lambda>(f, d). (f, streamUpdateMsg d)) us)) = messages m"
  by (induction us arbitrary: m) (auto simp: update_msg_keeps simp del: Update.simps)



text \<open>While a request is in flight the input buffer is empty: only Enter sets \<open>loading\<close>,
  and it clears the buffer; no key fills the buffer while \<open>loading\<close> holds.\<close>

lemma Update_loading_input:
  "(loading m \<longrightarrow> input m = []) \<Longrightarrow>
   loading (fst (Update R f m x)) \<longrightarrow> input (fst (Update R f m x)) = []"
  by (cases x) (auto simp: Let_def split: option.splits)

lemma initial_loading: "\<not> loading (initialModel env)"
  by (simp add: initialModel_def zeroModel_def Let_def)

lemma deliver_loading_input:
  "(loading m \<longrightarrow> input m = []) \<Longrightarrow>
   loading (deliver R m evs) \<longrightarrow> input (deliver R m evs) = []"
proof (induction evs arbitrary: m)
  case Nil
  then show ?case by simp
next
  case (Cons ev evs)
  obtain f x where ev: "ev = (f, x)" by (cases ev)
  from Cons.prems have "loading (fst (Update R f m x)) \<longrightarrow> input (fst (Update R f m x)) = []"
    by (rule Update_loading_input)
  from Cons.IH [OF this] show ?case by (simp add: ev del: Update.simps)
qed






lemma submitted_hi_eq:
  "submitted_hi = \<lparr> client = Some ''sk-test'', modelName = ''gpt-4o'',
      messages = [\<lparr> role = ''user'', content = ''hi'' \<rparr>], input = [],
      viewport = ''You: hi'' @ nl @ nl, loading = True, streaming = True, partialResp = [],
      err = None, streamChan = Some 0 \<rparr>"
  by (simp add: submitted_hi_def initialModel_def keyEnv_def zeroModel_def plainRender_def
        Let_def sendMessage_def streamResponse_def)



lemma Update_complete_done:
  "fst (Update R f m (streamCompleteMsg d None)) =
     m \<lparr> loading := False, streaming := False, streamChan := None,
         messages := messages m @ [\<lparr> role = ''assistant'', content = d \<rparr>],
         viewport := viewport m @ R assistantStyle ''LLM: '' @ d @ nl @ nl,
         partialResp := [] \<rparr>"
  by (simp add: Let_def)

lemma Update_complete_error:
  "fst (Update R f m (streamCompleteMsg c (Some e))) =
     m \<lparr> loading := False, streaming := False, streamChan := None, err := Some e,
         partialResp := [] \<rparr>"
  by (simp add: Let_def)



lemma key_while_loading:
  "loading m \<Longrightarrow> input m = [] \<Longrightarrow> literal_key k \<or> k = ''backspace'' \<Longrightarrow>
     fst (Update R f m (KeyMsg k)) = m"
  by (auto simp: literal_key_def)

lemma key_while_idle:
  "\<not> loading m \<Longrightarrow> literal_key k \<Longrightarrow> input (fst (Update R f m (KeyMsg k))) = input m @ k"
  by (auto simp: literal_key_def)

section \<open>Properties of the conduit and of the poll\<close>

lemma try_send_full:
  "\<not> closed ch \<Longrightarrow> capacity ch \<le> length (queue ch) \<Longrightarrow> try_send ch v = Inr (False, ch)"
  by (simp add: try_send_def)

lemma try_send_room:
  "\<not> closed ch \<Longrightarrow> length (queue ch) < capacity ch \<Longrightarrow>
     try_send ch v = Inr (True, ch \<lparr> queue := queue ch @ [v] \<rparr>)"
  by (simp add: try_send_def)

lemma decode_done: "HasPrefix t ''DONE:'' \<Longrightarrow> decode t = streamCompleteMsg (drop 5 t) None"
  by (simp add: decode_def)

lemma decode_error:
  "HasPrefix t ''ERROR:'' \<Longrightarrow> decode t = streamCompleteMsg [] (Some (drop 6 t))"
  by (auto simp: decode_def HasPrefix_def prefix_def)



section \<open>The steps of the producer\<close>

lemma producer_step_text:
  "prod r = Looping (c # cs) e full \<Longrightarrow> has_text c \<Longrightarrow>
     producer_step r =
       (case try_send (conduit r) (full @ delta c) of
          Inl p \<Rightarrow> Inl p
        | Inr (b, ch') \<Rightarrow>
            Inr (r \<lparr> prod := Looping cs e (full @ delta c), conduit := ch',
                     oplog := oplog r @ [PushPartial (full @ delta c) b] \<rparr>))"
  by (simp add: producer_step_def)




lemma producer_step_exited: "prod r = Exited \<Longrightarrow> producer_step r = Inr r"
  by (simp add: producer_step_def)




section \<open>Invariants of the interleaved runs\<close>













text \<open>A snapshot pushed into an empty conduit is what the next poll decodes.\<close>

lemma push_then_poll:
  assumes "prod r = Looping (c # cs) e full" "has_text c" "\<not> closed (conduit r)"
    "queue (conduit r) = []" "0 < capacity (conduit r)"
  shows "relay_run [Producer, Consumer] r =
           Inr (r \<lparr> prod := Looping cs e (full @ delta c),
                    oplog := oplog r @ [PushPartial (full @ delta c) True,
                                        ConsumerRecv (decode (full @ delta c))] \<rparr>)"
  using assms
  by (simp add: producer_step_text try_send_room consumer_step_def listenForStreamUpdates_def)

text \<open>The non-streaming path turns an answer without choices into an error.\<close>

lemma nonstreaming_empty_response:
  "sendMessage_nonstreaming (Inr []) = msgResponse [] (Some ''no response from OpenAI'')
   \<and> messages (fst (Update R f m (sendMessage_nonstreaming (Inr [])))) = messages m
   \<and> err (fst (Update R f m (sendMessage_nonstreaming (Inr [])))) = Some ''no response from OpenAI''
   \<and> \<not> loading (fst (Update R f m (sendMessage_nonstreaming (Inr []))))"
  by (simp add: sendMessage_nonstreaming_def Let_def)

section \<open>The claims of the specification\<close>

subsection \<open>C1: the done event replaces the partial text\<close>

text \<open>
  Claim C1. When the UI loop receives stream updates carrying the cumulative texts
  \<open>d1, ..., dn\<close> and then a done event carrying the final text, the transcript afterwards is
  the transcript before with exactly one assistant message appended, whose content is the
  final text (no concatenation of the updates); the partial text is empty and the loading
  and streaming flags are cleared. Each update leaves the transcript alone and, when its text
  is not empty, overwrites the partial text with it.
\<close>

theorem C1_done_replaces_partial:
  "(let m' = deliver R m (map (\<lambda>(f, d). (f, streamUpdateMsg d)) us
                           @ [(g, streamCompleteMsg dn None)]) in
      messages m' = messages m @ [\<lparr> role = ''assistant'', content = dn \<rparr>]
    \<and> partialResp m' = [] \<and> \<not> loading m' \<and> \<not> streaming m')
   \<and> (let m1 = fst (Update R f m (streamUpdateMsg c)) in
        messages m1 = messages m
      \<and> partialResp m1 = (if c = [] then partialResp m else c))"
proof -
  let ?mid = "deliver R m (map (\<lambda>(f, d). (f, streamUpdateMsg d)) us)"
  let ?end = "fst (Update R g ?mid (streamCompleteMsg dn None))"
  have run: "deliver R m (map (\<lambda>(f, d). (f, streamUpdateMsg d)) us
                          @ [(g, streamCompleteMsg dn None)]) = ?end"
    by (simp add: deliver_append del: Update.simps)
  have "messages ?end = messages ?mid @ [\<lparr> role = ''assistant'', content = dn \<rparr>]"
    by (simp add: Update_complete_done del: Update.simps)
  then have a: "messages ?end = messages m @ [\<lparr> role = ''assistant'', content = dn \<rparr>]"
    by (simp only: deliver_updates_messages)
  have b: "partialResp ?end = [] \<and> \<not> loading ?end \<and> \<not> streaming ?end"
    by (simp add: Update_complete_done del: Update.simps)
  have c: "messages (fst (Update R f m (streamUpdateMsg c))) = messages m
         \<and> partialResp (fst (Update R f m (streamUpdateMsg c)))
             = (if c = [] then partialResp m else c)"
    by (simp only: update_msg_keeps)
  from a b c show ?thesis
    unfolding Let_def run by blast
qed

text \<open>Scenario 1: after \<open>hi\<close> the gateway streams \<open>H\<close>, \<open>He\<close>, \<open>Hel\<close> and is done with
  \<open>Hello\<close>.\<close>

theorem C1_scenario_one:
  "(let m' = deliver plainRender submitted_hi
               (map (\<lambda>(f, d). (f, streamUpdateMsg d)) [(0, ''H''), (0, ''He''), (0, ''Hel'')]
                @ [(0, streamCompleteMsg ''Hello'' None)]) in
      messages m' = [\<lparr> role = ''user'', content = ''hi'' \<rparr>,
                     \<lparr> role = ''assistant'', content = ''Hello'' \<rparr>]
    \<and> partialResp m' = [] \<and> \<not> loading m' \<and> \<not> streaming m')
   \<and> partialResp (fst (Update plainRender 0 submitted_hi (streamUpdateMsg ''H''))) = ''H''
   \<and> partialResp (fst (Update plainRender 0
        (fst (Update plainRender 0 submitted_hi (streamUpdateMsg ''H'')))
        (streamUpdateMsg ''He''))) = ''He''"
  using C1_done_replaces_partial [where R = plainRender and m = submitted_hi
          and us = "[(0, ''H''), (0, ''He''), (0, ''Hel'')]" and g = 0 and dn = "''Hello''"
          and f = 0 and c = "''H''"]
        C1_done_replaces_partial [where R = plainRender
          and m = "fst (Update plainRender 0 submitted_hi (streamUpdateMsg ''H''))"
          and us = "[]" and g = 0 and dn = "''Hello''" and f = 0 and c = "''He''"]
  by (simp add: Let_def submitted_hi_eq del: Update.simps deliver.simps)

subsection \<open>C2: a terminal error event\<close>

text \<open>
  Claim C2. In every state (in particular while a request is in flight), processing a
  terminal error event leaves the transcript's message list unchanged, sets loading and
  streaming to false, clears the partial text and records the error description in the error
  field. This holds for the completion message with an error and for the chunk message with
  an error; and the string \<open>ERROR:\<close> followed by a description decodes to the completion
  message that carries that description.
\<close>

theorem C2_terminal_error:
  "(let m' = fst (Update R f m (streamCompleteMsg c (Some e))) in
      messages m' = messages m \<and> \<not> loading m' \<and> \<not> streaming m'
    \<and> partialResp m' = [] \<and> err m' = Some e)
   \<and> (let m' = fst (Update R f m (msgStreamChunk c d (Some e))) in
      messages m' = messages m \<and> \<not> loading m' \<and> \<not> streaming m'
    \<and> partialResp m' = [] \<and> err m' = Some e)
   \<and> decode (''ERROR:'' @ e) = streamCompleteMsg [] (Some e)"
  by (simp add: Let_def decode_def HasPrefix_def)

text \<open>Scenario 2: after \<open>hi\<close> the gateway fails at once with \<open>rate limited\<close>.\<close>

theorem C2_scenario_two:
  "startStreamingInBackground (make_chan streamChanCap)
       \<lparr> chunks = [], streamErr = Some ''rate limited'' \<rparr>
     = Inr \<lparr> queue = [''ERROR:rate limited''], capacity = 100, closed = True \<rparr>
   \<and> fst (listenForStreamUpdates \<lparr> queue = [''ERROR:rate limited''], capacity = 100,
                                    closed = True \<rparr>)
     = streamCompleteMsg [] (Some ''rate limited'')
   \<and> (let m' = fst (Update plainRender 0 submitted_hi
                     (streamCompleteMsg [] (Some ''rate limited''))) in
        messages m' = [\<lparr> role = ''user'', content = ''hi'' \<rparr>]
      \<and> \<not> loading m' \<and> \<not> streaming m' \<and> partialResp m' = []
      \<and> err m' = Some ''rate limited''
      \<and> View plainRender m' = ''Error: rate limited'' @ nl @ nl @ ''Press q to quit.'')"
  using C2_terminal_error [where R = plainRender and f = 0 and m = submitted_hi and c = "[]"
          and e = "''rate limited''" and d = False]
  by (simp add: Let_def submitted_hi_eq startStreamingInBackground_def make_chan_def
        streamChanCap_def try_send_def final_event_def close_chan_def
        listenForStreamUpdates_def View_def plainRender_def)

subsection \<open>C3: one terminal event, then one close\<close>




subsection \<open>C4: keys in the Fatal state\<close>




subsection \<open>C5: a send into a full conduit\<close>

text \<open>
  The claim as stated says that a send into a full conduit drops the oldest pending update,
  so that the most recent snapshot is retained. The default branch of the \<open>select\<close> does
  nothing: after 101 one-letter chunks without a poll the conduit still starts with the
  first snapshot \<open>a\<close> and ends with the 100th, and the 101st, the most recent one, is
  the one that was dropped.
\<close>

theorem C5_counterexample:
  "case relay_run (replicate 101 Producer) (relay_init burst) of
     Inl p \<Rightarrow> False
   | Inr r \<Rightarrow>
       hd (queue (conduit r)) = ''a''
     \<and> last (queue (conduit r)) = replicate 100 (CHR ''a'')
     \<and> last (oplog r) = PushPartial (replicate 101 (CHR ''a'')) False"
  by code_simp

text \<open>
  Claim C5, amended. When the producer attempts the non-blocking send of a partial
  cumulative snapshot and the open conduit is full, the send does not block and discards the
  snapshot being sent: the conduit is left exactly as it was, with its pending updates in
  their order, and the producer goes on to the next chunk with the snapshot accumulated.
\<close>

theorem C5_full_conduit_discards_new:
  "\<not> closed (conduit r) \<Longrightarrow> capacity (conduit r) \<le> length (queue (conduit r)) \<Longrightarrow>
     try_send (conduit r) v = Inr (False, conduit r)
   \<and> (prod r = Looping (c # cs) e full \<and> has_text c \<longrightarrow>
        producer_step r =
          Inr (r \<lparr> prod := Looping cs e (full @ delta c), conduit := conduit r,
                   oplog := oplog r @ [PushPartial (full @ delta c) False] \<rparr>))"
  by (simp add: try_send_full producer_step_text)

theorem C5_witness:
  "\<not> closed (conduit full_relay)
   \<and> capacity (conduit full_relay) \<le> length (queue (conduit full_relay))
   \<and> prod full_relay = Looping [ [''c''] ] None ''ab'' \<and> has_text [''c'']
   \<and> try_send (conduit full_relay) ''abc'' = Inr (False, conduit full_relay)
   \<and> producer_step full_relay
      = Inr \<lparr> prod = Looping [] None ''abc'',
              conduit = \<lparr> queue = [''a'', ''ab''], capacity = 2, closed = False \<rparr>,
              oplog = [PushPartial ''a'' True, PushPartial ''ab'' True,
                       PushPartial ''abc'' False] \<rparr>"
  using C5_full_conduit_discards_new [where r = full_relay and v = "''abc''" and c = "[''c'']"
          and cs = "[]" and e = None and full = "''ab''"]
  by (simp add: full_relay_def has_text_def delta_def)

subsection \<open>C6: a stream that ends without content\<close>

text \<open>
  Claim C6 says that a request the gateway completes with zero content is treated as an
  error: no assistant message, an error in the state. The streaming path does not do that.
  For a stream without chunks and without error the producer sends \<open>DONE:\<close>, the poll
  decodes it as a completion with empty content, and \<open>Update\<close> appends an assistant message
  with empty content and leaves the error field unset.
\<close>

theorem C6_empty_stream_appends_empty_answer:
  "startStreamingInBackground (make_chan streamChanCap) \<lparr> chunks = [], streamErr = None \<rparr>
     = Inr \<lparr> queue = [''DONE:''], capacity = 100, closed = True \<rparr>
   \<and> fst (listenForStreamUpdates \<lparr> queue = [''DONE:''], capacity = 100, closed = True \<rparr>)
     = streamCompleteMsg [] None
   \<and> messages (fst (Update plainRender 0 submitted_hi (streamCompleteMsg [] None)))
     = [\<lparr> role = ''user'', content = ''hi'' \<rparr>, \<lparr> role = ''assistant'', content = [] \<rparr>]
   \<and> err (fst (Update plainRender 0 submitted_hi (streamCompleteMsg [] None))) = None
   \<and> \<not> loading (fst (Update plainRender 0 submitted_hi (streamCompleteMsg [] None)))"
  by (simp add: startStreamingInBackground_def make_chan_def streamChanCap_def try_send_def
        final_event_def close_chan_def listenForStreamUpdates_def decode_def HasPrefix_def
        submitted_hi_eq Let_def)

subsection \<open>C7: keys while loading and while idle\<close>

text \<open>
  Claim C7. In every state the program reaches from its initial state, under any messages
  whatever: while \<open>loading\<close> holds, a literal key and backspace leave the input buffer
  unchanged; while \<open>loading\<close> does not hold, a literal key appends its representation to
  the input buffer. A literal key is a key other than the two quit keys, Enter and backspace.
  (The backspace branch has no test of \<open>loading\<close>; the buffer is empty whenever
  \<open>loading\<close> holds.)
\<close>

theorem C7_keys_and_loading:
  "m = deliver R (initialModel env) evs \<Longrightarrow>
     (loading m \<longrightarrow> literal_key k \<or> k = ''backspace'' \<longrightarrow>
        input (fst (Update R f m (KeyMsg k))) = input m)
   \<and> (\<not> loading m \<longrightarrow> literal_key k \<longrightarrow>
        input (fst (Update R f m (KeyMsg k))) = input m @ k)"
proof -
  assume m: "m = deliver R (initialModel env) evs"
  have "loading (initialModel env) \<longrightarrow> input (initialModel env) = []"
    by (simp add: initial_loading)
  then have inv: "loading m \<longrightarrow> input m = []"
    unfolding m by (rule deliver_loading_input)
  have a: "input (fst (Update R f m (KeyMsg k))) = input m"
    if "loading m" "literal_key k \<or> k = ''backspace''"
    using that inv key_while_loading [of m k R f] by simp
  have b: "input (fst (Update R f m (KeyMsg k))) = input m @ k"
    if "\<not> loading m" "literal_key k"
    using that by (rule key_while_idle)
  from a b show ?thesis by blast
qed

theorem C7_witness:
  "submitted_hi = deliver plainRender (initialModel keyEnv)
       [(0, KeyMsg ''h''), (0, KeyMsg ''i''), (0, KeyMsg ''enter''), (0, streamStartMsg),
        (0, streamStarted (Some ''sk-test'') [UserMessage ''hi''] ''gpt-4o'')]
   \<and> loading submitted_hi
   \<and> literal_key ''x''
   \<and> input (fst (Update plainRender 0 submitted_hi (KeyMsg ''x''))) = []
   \<and> input (fst (Update plainRender 0 submitted_hi (KeyMsg ''backspace''))) = []
   \<and> initialModel keyEnv = deliver plainRender (initialModel keyEnv) []
   \<and> \<not> loading (initialModel keyEnv)
   \<and> input (fst (Update plainRender 0 (initialModel keyEnv) (KeyMsg ''x''))) = ''x''"
  using C7_keys_and_loading [where m = submitted_hi and R = plainRender and env = keyEnv
          and evs = "[(0, KeyMsg ''h''), (0, KeyMsg ''i''), (0, KeyMsg ''enter''),
            (0, streamStartMsg),
            (0, streamStarted (Some ''sk-test'') [UserMessage ''hi''] ''gpt-4o'')]"
          and k = "''x''" and f = 0]
        C7_keys_and_loading [where m = submitted_hi and R = plainRender and env = keyEnv
          and evs = "[(0, KeyMsg ''h''), (0, KeyMsg ''i''), (0, KeyMsg ''enter''),
            (0, streamStartMsg),
            (0, streamStarted (Some ''sk-test'') [UserMessage ''hi''] ''gpt-4o'')]"
          and k = "''backspace''" and f = 0]
        C7_keys_and_loading [where m = "initialModel keyEnv" and R = plainRender
          and env = keyEnv and evs = "[]" and k = "''x''" and f = 0]
  by (simp add: submitted_hi_def [symmetric] literal_key_def initial_loading
        del: Update.simps deliver.simps)
     (simp add: submitted_hi_eq initialModel_def keyEnv_def zeroModel_def)

subsection \<open>C8: the session invariant\<close>




subsection \<open>C9: a snapshot that reads as a terminal event\<close>

text \<open>
  Claim C9. The conduit carries partial snapshots and terminal events as plain strings. When
  the text accumulated so far begins with \<open>DONE:\<close> (or \<open>ERROR:\<close>), the producer, still
  inside its loop with chunks to come, pushes that snapshot as it is, and the consumer's poll
  decodes it as a completion with the rest of the text as final content (or as an error with
  the rest as description); \<open>Update\<close> then ends the turn: it clears \<open>loading\<close> and
  \<open>streaming\<close>, drops the channel, and appends the truncated assistant message (or sets the
  error field).
\<close>

theorem C9_snapshot_read_as_terminal:
  "prod r = Looping (c # cs) e full \<Longrightarrow> has_text c \<Longrightarrow> \<not> closed (conduit r) \<Longrightarrow>
   queue (conduit r) = [] \<Longrightarrow> 0 < capacity (conduit r) \<Longrightarrow>
     (HasPrefix (full @ delta c) ''DONE:'' \<longrightarrow>
        relay_run [Producer, Consumer] r =
          Inr (r \<lparr> prod := Looping cs e (full @ delta c),
                   oplog := oplog r @ [PushPartial (full @ delta c) True,
                     ConsumerRecv (streamCompleteMsg (drop 5 (full @ delta c)) None)] \<rparr>)
      \<and> fst (Update R f m (decode (full @ delta c))) =
          m \<lparr> loading := False, streaming := False, streamChan := None,
              messages := messages m
                @ [\<lparr> role = ''assistant'', content = drop 5 (full @ delta c) \<rparr>],
              viewport := viewport m @ R assistantStyle ''LLM: ''
                @ drop 5 (full @ delta c) @ nl @ nl,
              partialResp := [] \<rparr>)
   \<and> (HasPrefix (full @ delta c) ''ERROR:'' \<longrightarrow>
        relay_run [Producer, Consumer] r =
          Inr (r \<lparr> prod := Looping cs e (full @ delta c),
                   oplog := oplog r @ [PushPartial (full @ delta c) True,
                     ConsumerRecv (streamCompleteMsg [] (Some (drop 6 (full @ delta c))))] \<rparr>)
      \<and> fst (Update R f m (decode (full @ delta c))) =
          m \<lparr> loading := False, streaming := False, streamChan := None,
              err := Some (drop 6 (full @ delta c)), partialResp := [] \<rparr>)"
proof -
  assume a: "prod r = Looping (c # cs) e full" "has_text c" "\<not> closed (conduit r)"
    "queue (conduit r) = []" "0 < capacity (conduit r)"
  note run = push_then_poll [OF a]
  let ?goal = "(HasPrefix (full @ delta c) ''DONE:'' \<longrightarrow>
        relay_run [Producer, Consumer] r =
          Inr (r \<lparr> prod := Looping cs e (full @ delta c),
                   oplog := oplog r @ [PushPartial (full @ delta c) True,
                     ConsumerRecv (streamCompleteMsg (drop 5 (full @ delta c)) None)] \<rparr>)
      \<and> fst (Update R f m (decode (full @ delta c))) =
          m \<lparr> loading := False, streaming := False, streamChan := None,
              messages := messages m
                @ [\<lparr> role = ''assistant'', content = drop 5 (full @ delta c) \<rparr>],
              viewport := viewport m @ R assistantStyle ''LLM: ''
                @ drop 5 (full @ delta c) @ nl @ nl,
              partialResp := [] \<rparr>)
   \<and> (HasPrefix (full @ delta c) ''ERROR:'' \<longrightarrow>
        relay_run [Producer, Consumer] r =
          Inr (r \<lparr> prod := Looping cs e (full @ delta c),
                   oplog := oplog r @ [PushPartial (full @ delta c) True,
                     ConsumerRecv (streamCompleteMsg [] (Some (drop 6 (full @ delta c))))] \<rparr>)
      \<and> fst (Update R f m (decode (full @ delta c))) =
          m \<lparr> loading := False, streaming := False, streamChan := None,
              err := Some (drop 6 (full @ delta c)), partialResp := [] \<rparr>)"
  have d: ?goal if "HasPrefix (full @ delta c) ''DONE:''"
  proof -
    have "\<not> HasPrefix (full @ delta c) ''ERROR:''"
      using that by (auto simp: HasPrefix_def prefix_def)
    then show ?thesis
      using that run
      by (simp add: decode_done Update_complete_done del: Update.simps relay_run.simps)
  qed
  have e: ?goal if "HasPrefix (full @ delta c) ''ERROR:''"
  proof -
    have "\<not> HasPrefix (full @ delta c) ''DONE:''"
      using that by (auto simp: HasPrefix_def prefix_def)
    then show ?thesis
      using that run
      by (simp add: decode_error Update_complete_error del: Update.simps relay_run.simps)
  qed
  have n: ?goal
    if "\<not> HasPrefix (full @ delta c) ''DONE:''" "\<not> HasPrefix (full @ delta c) ''ERROR:''"
    using that by simp
  from d e n show ?goal by blast
qed

text \<open>An answer that begins with \<open>DONE: all\<close>, and one that begins with \<open>ERROR: none\<close>,
  each with a second chunk still to come.\<close>

theorem C9_witness:
  "prod done_like = Looping [ [''DONE: all''], ['' good''] ] None []
   \<and> has_text [''DONE: all''] \<and> \<not> closed (conduit done_like)
   \<and> queue (conduit done_like) = [] \<and> 0 < capacity (conduit done_like)
   \<and> HasPrefix ([] @ delta [''DONE: all'']) ''DONE:''
   \<and> relay_run [Producer, Consumer] done_like =
       Inr \<lparr> prod = Looping [ ['' good''] ] None ''DONE: all'',
             conduit = make_chan 100,
             oplog = [PushPartial ''DONE: all'' True,
                      ConsumerRecv (streamCompleteMsg '' all'' None)] \<rparr>
   \<and> messages (fst (Update plainRender 0 submitted_hi (decode ''DONE: all'')))
       = [\<lparr> role = ''user'', content = ''hi'' \<rparr>, \<lparr> role = ''assistant'', content = '' all'' \<rparr>]
   \<and> \<not> loading (fst (Update plainRender 0 submitted_hi (decode ''DONE: all'')))
   \<and> prod error_like = Looping [ [''ERROR: none''], ['' found''] ] None []
   \<and> has_text [''ERROR: none''] \<and> \<not> closed (conduit error_like)
   \<and> queue (conduit error_like) = [] \<and> 0 < capacity (conduit error_like)
   \<and> HasPrefix ([] @ delta [''ERROR: none'']) ''ERROR:''
   \<and> err (fst (Update plainRender 0 submitted_hi (decode ''ERROR: none''))) = Some '' none''
   \<and> messages (fst (Update plainRender 0 submitted_hi (decode ''ERROR: none'')))
       = [\<lparr> role = ''user'', content = ''hi'' \<rparr>]"
proof -
  have p1: "prod done_like = Looping [ [''DONE: all''], ['' good''] ] None []"
    and p2: "has_text [''DONE: all'']" and p3: "\<not> closed (conduit done_like)"
    and p4: "queue (conduit done_like) = []" and p5: "0 < capacity (conduit done_like)"
    and p6: "HasPrefix ([] @ delta [''DONE: all'']) ''DONE:''"
    by (simp_all add: done_like_def relay_init_def make_chan_def streamChanCap_def
          has_text_def delta_def HasPrefix_def)
  have q1: "prod error_like = Looping [ [''ERROR: none''], ['' found''] ] None []"
    and q2: "has_text [''ERROR: none'']" and q3: "\<not> closed (conduit error_like)"
    and q4: "queue (conduit error_like) = []" and q5: "0 < capacity (conduit error_like)"
    and q6: "HasPrefix ([] @ delta [''ERROR: none'']) ''ERROR:''"
    by (simp_all add: error_like_def relay_init_def make_chan_def streamChanCap_def
          has_text_def delta_def HasPrefix_def)
  from C9_snapshot_read_as_terminal [OF p1 p2 p3 p4 p5, where R = plainRender and f = 0
         and m = submitted_hi]
       C9_snapshot_read_as_terminal [OF q1 q2 q3 q4 q5, where R = plainRender and f = 0
         and m = submitted_hi]
       p1 p2 p3 p4 p5 p6 q1 q2 q3 q4 q5 q6
  show ?thesis
    by (simp add: delta_def submitted_hi_eq done_like_def relay_init_def make_chan_def
          streamChanCap_def del: Update.simps relay_run.simps)
qed

subsection \<open>C10: the error field is never cleared\<close>




end
